theory Spec2Isabelle
  imports Complex_Main
begin

section \<open>Confidence from token log-probabilities\<close>

text \<open>
  \<^verbatim>\<open>computeConfidenceFromLogprobs\<close> (collaborationService.ts, lines 22-46) receives
  the \<^verbatim>\<open>logprobs\<close> member of a chat-completion choice. The SDK types it as an object
  with a nullable array \<^verbatim>\<open>content\<close> of per-token entries, each carrying a numeric
  \<^verbatim>\<open>logprob\<close>; the function itself additionally tolerates \<^verbatim>\<open>null\<close>/\<^verbatim>\<open>undefined\<close>
  entries of \<^verbatim>\<open>logprob\<close> (its filter). JavaScript numbers are modelled as reals.
\<close>

record token_logprob =
  token :: string
  logprob :: "real option"

record logprobs =
  content :: "token_logprob list option"

definition computeConfidenceFromLogprobs :: "logprobs option \<Rightarrow> real option" where
  "computeConfidenceFromLogprobs lp =
     (case lp of
        None \<Rightarrow> None
      | Some l \<Rightarrow>
          (case content l of
             None \<Rightarrow> None
           | Some cs \<Rightarrow>
               if length cs = 0 then None
               else
                 let tokenLogprobs = List.map_filter logprob cs in
                 if length tokenLogprobs = 0 then None
                 else
                   let sumLogprobs = foldl (\<lambda>sum lp. sum + lp) 0 tokenLogprobs;
                       meanLogprob = sumLogprobs / real (length tokenLogprobs);
                       geometricMean = exp meanLogprob;
                       confidenceScore = geometricMean * 100
                   in Some (min 100 (max 0 confidenceScore))))"


section \<open>String helpers\<close>

text \<open>
  The JavaScript string operations the services use, on \<^typ>\<open>string\<close>. Characters are
  bytes; \<^verbatim>\<open>toLowerCase\<close> and \<^verbatim>\<open>trim\<close> are modelled on ASCII.
\<close>

definition nl :: string where
  "nl = [CHR 0x0A]"

definition lower_char :: "char \<Rightarrow> char" where
  "lower_char c =
     (case map_of (zip ''ABCDEFGHIJKLMNOPQRSTUVWXYZ'' ''abcdefghijklmnopqrstuvwxyz'') c of
        None \<Rightarrow> c
      | Some l \<Rightarrow> l)"

definition toLowerCase :: "string \<Rightarrow> string" where
  "toLowerCase s = map lower_char s"

fun startsWith :: "string \<Rightarrow> string \<Rightarrow> bool" where
  "startsWith s [] = True"
| "startsWith [] (p # ps) = False"
| "startsWith (c # cs) (p # ps) = (c = p \<and> startsWith cs ps)"

fun str_includes :: "string \<Rightarrow> string \<Rightarrow> bool" where
  "str_includes [] sub = (sub = [])"
| "str_includes (c # cs) sub = (startsWith (c # cs) sub \<or> str_includes cs sub)"

fun join :: "string \<Rightarrow> string list \<Rightarrow> string" where
  "join sep [] = []"
| "join sep [x] = x"
| "join sep (x # y # ys) = x @ sep @ join sep (y # ys)"

definition is_space :: "char \<Rightarrow> bool" where
  "is_space c \<longleftrightarrow> c \<in> set [CHR '' '', CHR 0x09, CHR 0x0A, CHR 0x0B, CHR 0x0C, CHR 0x0D]"

definition trim :: "string \<Rightarrow> string" where
  "trim s = rev (dropWhile is_space (rev (dropWhile is_space s)))"

definition show_bool :: "bool \<Rightarrow> string" where
  "show_bool b = (if b then ''true'' else ''false'')"

text \<open>\<^verbatim>\<open>x || d\<close> on an optional string: \<^verbatim>\<open>undefined\<close>, \<^verbatim>\<open>null\<close> and \<^verbatim>\<open>""\<close> are falsy.\<close>

definition or_else :: "string option \<Rightarrow> string \<Rightarrow> string" where
  "or_else x d = (case x of None \<Rightarrow> d | Some s \<Rightarrow> if s = [] then d else s)"

text \<open>A template literal prints an absent property as \<^verbatim>\<open>undefined\<close>.\<close>

definition show_opt :: "string option \<Rightarrow> string" where
  "show_opt x = (case x of None \<Rightarrow> ''undefined'' | Some s \<Rightarrow> s)"

section \<open>Rows of the database\<close>

text \<open>
  The tables the two services read and write through the Supabase client, with the
  columns their queries name. Timestamps (ISO strings in the code, ordered as points in
  time by the database) are natural numbers. The status columns of tasks and
  assignments only ever receive the literals below.
\<close>

type_synonym id = string
type_synonym timestamp = nat

datatype task_status = PENDING | IN_PROGRESS | COMPLETED | FAILED

record team_row =
  team_id :: id
  team_name :: string
  team_description :: string
  team_user_id :: id
  team_objective :: string
  team_status :: string
  team_created_at :: timestamp
  team_updated_at :: timestamp

record member_row =
  member_id :: id
  member_team_id :: id
  member_agent_id :: id
  member_role :: string
  is_primary_agent :: bool
  added_at :: timestamp

record agent_row =
  agent_id :: id
  agent_user_id :: id
  agent_name :: string
  agent_type :: "string option"

record task_row =
  task_id :: id
  task_team_id :: id
  task_user_id :: id
  task_title :: string
  task_description :: string
  task_status :: task_status
  task_priority :: string
  task_result :: "string option"
  version_number :: int
  parent_task_id :: "id option"
  feedback :: "real option"
  task_created_at :: timestamp
  task_completed_at :: "timestamp option"

record assignment_row =
  asg_id :: id
  asg_task_id :: id
  asg_agent_id :: id
  subtask_description :: "string option"
  asg_status :: task_status
  asg_result :: "string option"
  started_at :: "timestamp option"
  asg_completed_at :: "timestamp option"
  execution_order :: nat

record contribution_row =
  contrib_id :: id
  contrib_task_id :: id
  contrib_agent_id :: id
  contribution :: string
  confidence :: real
  contrib_created_at :: timestamp

record share_request_row =
  sr_resource_type :: string
  sr_resource_id :: id
  sr_requester_user_id :: id
  sr_status :: string

record attachment_row =
  att_task_id :: id
  original_file_name :: string
  file_type :: "string option"
  file_path :: string
  uploaded_at :: timestamp

section \<open>The LLM provider\<close>

datatype content_part = TextPart string | ImageUrlPart string

datatype msg_content = Text string | Parts "content_part list"

datatype message = SystemMsg string | UserMsg msg_content

text \<open>
  A \<^verbatim>\<open>chat.completions.create\<close> request. \<open>req_logprobs\<close> stands for the triple
  \<^verbatim>\<open>stream: false, logprobs: true, top_logprobs: 1\<close>.
\<close>

record llm_request =
  req_model :: string
  req_messages :: "message list"
  req_temperature :: real
  req_max_tokens :: "nat option"
  req_logprobs :: bool

record choice =
  message_content :: "string option"
  choice_logprobs :: "logprobs option"

record llm_response =
  choices :: "choice list"

record llm_error =
  err_status :: "nat option"
  err_code :: "string option"
  err_message :: "string option"
  err_inner_code :: "string option"

datatype js_error =
    ApiError llm_error
  | DbError string
  | TypeError string
  | SyntaxError string
  | Error string

text \<open>\<^verbatim>\<open>error.message\<close> and the string conversion \<^verbatim>\<open>`${error}`\<close>.\<close>

fun error_message :: "js_error \<Rightarrow> string" where
  "error_message (ApiError e) = show_opt (err_message e)"
| "error_message (DbError m) = m"
| "error_message (TypeError m) = m"
| "error_message (SyntaxError m) = m"
| "error_message (Error m) = m"

fun error_text :: "js_error \<Rightarrow> string" where
  "error_text (ApiError e) = ''Error: '' @ show_opt (err_message e)"
| "error_text (DbError m) = ''[object Object]''"
| "error_text (TypeError m) = ''TypeError: '' @ m"
| "error_text (SyntaxError m) = ''SyntaxError: '' @ m"
| "error_text (Error m) = ''Error: '' @ m"

text \<open>The test \<^verbatim>\<open>isModelError\<close>, written out identically at the three call sites.\<close>

definition isModelError :: "llm_error \<Rightarrow> bool" where
  "isModelError e \<longleftrightarrow>
     err_status e = Some 404 \<or>
     err_code e = Some ''model_not_found'' \<or>
     (case err_message e of None \<Rightarrow> False | Some m \<Rightarrow> str_includes (toLowerCase m) ''model'') \<or>
     err_inner_code e = Some ''model_not_found''"

section \<open>World and environment\<close>

datatype sse_event =
    EvStatus string
  | EvError string
  | EvAgentStart id string string "string option"
  | EvAgentStream "id option" string
  | EvAgentComplete id string string
  | EvSynthesis string
  | EvComplete string
  | StreamEnd

text \<open>
  The state the services act on: the tables, the requests sent to the LLM provider so
  far, and the events written to the HTTP response.
\<close>

record world =
  teams :: "team_row list"
  team_members :: "member_row list"
  agents :: "agent_row list"
  tasks :: "task_row list"
  assignments :: "assignment_row list"
  contributions :: "contribution_row list"
  share_requests :: "share_request_row list"
  attachments :: "attachment_row list"
  llm_log :: "llm_request list"
  events :: "sse_event list"

text \<open>Every call of the Supabase client in the modelled functions, by call site.\<close>

datatype gt_site =
  GtTask | GtTeam | GtOwnerAgents | GtShare | GtAssignments | GtMembers | GtContributions

datatype db_op =
    CT_SelectParent
  | CT_InsertTask
  | CT_SelectMembers
  | CT_InsertAssignment nat
  | GT id gt_site
  | EX_SetInProgress
  | EX_SelectTask
  | EX_SelectAttachments
  | EX_SelectAssignments
  | EX_SelectMembers
  | EX_StartAssignment id
  | EX_SaveResult id
  | EX_InsertContribution id
  | EX_FinalUpdate
  | EX_Reset
  | RF_SelectTask
  | RF_SelectShare
  | RF_Update
  | TS_SelectTeams
  | TS_SelectMembers id
  | TS_ArchiveTeam

text \<open>An element of the array the decomposition reply parses to.\<close>

datatype json_item = JNull | JItem "string option" "string option"

text \<open>
  What the code does not determine: which database calls come back with an error (such a
  call leaves the tables as they were),
  the clock, \<^verbatim>\<open>crypto.randomUUID\<close>, the LLM provider (a reply or a thrown error,
  depending on the request and on the requests before it), \<^verbatim>\<open>JSON.parse\<close> of the
  decomposition reply after the code fences are stripped (\<open>None\<close>: it throws, or the
  value is no array), and the file system (\<open>None\<close>: no such file, or reading throws).
\<close>

record env =
  fails :: "db_op \<Rightarrow> bool"
  clock :: "db_op \<Rightarrow> timestamp"
  uuid :: "db_op \<Rightarrow> id"
  llm :: "llm_request list \<Rightarrow> llm_request \<Rightarrow> llm_error + llm_response"
  parse_subtasks :: "string \<Rightarrow> json_item list option"
  read_base64 :: "string \<Rightarrow> string option"

definition create_completion :: "env \<Rightarrow> world \<Rightarrow> llm_request \<Rightarrow> (llm_error + llm_response) \<times> world" where
  "create_completion env w req = (llm env (llm_log w) req, w\<lparr>llm_log := llm_log w @ [req]\<rparr>)"

definition sendEvent :: "sse_event \<Rightarrow> world \<Rightarrow> world" where
  "sendEvent ev w = w\<lparr>events := events w @ [ev]\<rparr>"

definition db_error :: "db_op \<Rightarrow> js_error" where
  "db_error op = DbError ''database error''"

text \<open>\<^verbatim>\<open>.single()\<close>: the row when exactly one matches, otherwise no data.\<close>

definition single :: "'a list \<Rightarrow> 'a option" where
  "single xs = (case xs of [x] \<Rightarrow> Some x | _ \<Rightarrow> None)"

section \<open>Team service\<close>

text \<open>
  \<^verbatim>\<open>TeamService.getTeamMembers\<close>: the members of a team joined with their agent,
  primary agents first, then by the time they were added.
\<close>

definition getTeamMembers ::
  "env \<Rightarrow> world \<Rightarrow> id \<Rightarrow> js_error + (member_row \<times> agent_row option) list" where
  "getTeamMembers env w teamId =
     (if fails env (TS_SelectMembers teamId) then Inl (db_error (TS_SelectMembers teamId))
      else
        let members = filter (\<lambda>m. member_team_id m = teamId) (team_members w);
            ordered = sort_key (\<lambda>m. if is_primary_agent m then 0 else (1::nat))
                        (sort_key added_at members)
        in Inr (map (\<lambda>m. (m, find (\<lambda>a. agent_id a = member_agent_id m) (agents w))) ordered))"

text \<open>The loop of \<^verbatim>\<open>getTeamsByUser\<close> that attaches the members to each team.\<close>

fun load_members ::
  "env \<Rightarrow> world \<Rightarrow> team_row list \<Rightarrow>
   js_error + (team_row \<times> (member_row \<times> agent_row option) list) list" where
  "load_members env w [] = Inr []"
| "load_members env w (t # ts) =
     (case getTeamMembers env w (team_id t) of
        Inl e \<Rightarrow> Inl e
      | Inr ms \<Rightarrow>
          (case load_members env w ts of
             Inl e \<Rightarrow> Inl e
           | Inr rest \<Rightarrow> Inr ((t, ms) # rest)))"

text \<open>
  \<^verbatim>\<open>TeamService.getTeamsByUser\<close>: the user's teams whose status is \<^verbatim>\<open>ACTIVE\<close>, newest
  first.
\<close>

definition getTeamsByUser ::
  "env \<Rightarrow> world \<Rightarrow> id \<Rightarrow>
   js_error + (team_row \<times> (member_row \<times> agent_row option) list) list" where
  "getTeamsByUser env w userId =
     (if fails env TS_SelectTeams then Inl (db_error TS_SelectTeams)
      else
        let selected = filter (\<lambda>t. team_user_id t = userId \<and> team_status t = ''ACTIVE'') (teams w)
        in load_members env w (rev (sort_key team_created_at selected)))"

text \<open>
  \<^verbatim>\<open>TeamService.deleteTeam\<close>: one update of the status column, filtered on the team's id
  and on its owner.
\<close>

definition deleteTeam :: "env \<Rightarrow> world \<Rightarrow> id \<Rightarrow> id \<Rightarrow> (js_error + unit) \<times> world" where
  "deleteTeam env w teamId userId =
     (if fails env TS_ArchiveTeam then (Inl (db_error TS_ArchiveTeam), w)
      else
        (Inr (),
         w\<lparr>teams :=
             map (\<lambda>t. if team_id t = teamId \<and> team_user_id t = userId
                       then t\<lparr>team_status := ''ARCHIVED''\<rparr> else t)
                 (teams w)\<rparr>))"

section \<open>Task feedback\<close>




section \<open>Reading a task\<close>

text \<open>
  \<^verbatim>\<open>agentRoleMap\<close>: a \<^verbatim>\<open>Map\<close> built from the pairs (agent id, role), where a later
  pair replaces an earlier one with the same key; \<^verbatim>\<open>get(id) || 'Agent'\<close>.
\<close>

definition agentRoleMap :: "member_row list \<Rightarrow> id \<Rightarrow> string option" where
  "agentRoleMap teamMembers = map_of (rev (map (\<lambda>tm. (member_agent_id tm, member_role tm)) teamMembers))"

definition role_of :: "(id \<Rightarrow> string option) \<Rightarrow> id \<Rightarrow> string" where
  "role_of m a = or_else (m a) ''Agent''"

text \<open>A query for the assignments of a task with the agent joined, by execution order.\<close>

definition select_assignments :: "world \<Rightarrow> id \<Rightarrow> (assignment_row \<times> agent_row option) list" where
  "select_assignments w taskId =
     map (\<lambda>a. (a, find (\<lambda>g. agent_id g = asg_agent_id a) (agents w)))
       (sort_key execution_order (filter (\<lambda>a. asg_task_id a = taskId) (assignments w)))"

record task_view =
  view_task :: task_row
  view_assignments :: "(assignment_row \<times> string option \<times> string) list"
  view_contributions :: "(contribution_row \<times> string option) list"
  view_isOwner :: bool

text \<open>
  \<^verbatim>\<open>CollaborationService.getTaskById\<close>: the task, the access check (owner of the task
  or of its team, or an approved share of one of the team owner's agents), then its
  assignments and contributions.
\<close>

definition getTaskById :: "env \<Rightarrow> world \<Rightarrow> id \<Rightarrow> id \<Rightarrow> js_error + task_view" where
  "getTaskById env w taskId userId =
     (if fails env (GT taskId GtTask) then Inl (db_error (GT taskId GtTask))
      else
        case filter (\<lambda>t. task_id t = taskId) (tasks w) of
          [] \<Rightarrow> Inl (Error ''Task not found'')
        | task # _ \<Rightarrow>
            let team =
                  (if fails env (GT taskId GtTeam) then None
                   else single (filter (\<lambda>T. team_id T = task_team_id task) (teams w)));
                isOwner =
                  (task_user_id task = userId \<or>
                   (case team of None \<Rightarrow> False | Some T \<Rightarrow> team_user_id T = userId));
                access =
                  (if \<not> isOwner then
                     let ownerAgents =
                           (case team of
                              None \<Rightarrow> []
                            | Some T \<Rightarrow>
                                if fails env (GT taskId GtOwnerAgents) then []
                                else filter (\<lambda>a. agent_user_id a = team_user_id T) (agents w))
                     in
                       if length ownerAgents > 0 then
                         let agentIds = map agent_id ownerAgents;
                             sharedAccess =
                               (if fails env (GT taskId GtShare) then None
                                else
                                  find (\<lambda>s. sr_resource_type s = ''agent'' \<and>
                                             sr_resource_id s \<in> set agentIds \<and>
                                             sr_requester_user_id s = userId \<and>
                                             sr_status s = ''approved'')
                                       (share_requests w))
                         in sharedAccess \<noteq> None
                       else False
                   else True)
            in
              if \<not> access then Inl (Error ''Task not found'')
              else if fails env (GT taskId GtAssignments) then Inl (db_error (GT taskId GtAssignments))
              else if fails env (GT taskId GtMembers) then Inl (db_error (GT taskId GtMembers))
              else if fails env (GT taskId GtContributions)
                then Inl (db_error (GT taskId GtContributions))
              else
                let roles =
                      agentRoleMap
                        (filter (\<lambda>m. member_team_id m = task_team_id task) (team_members w))
                in
                  Inr \<lparr>view_task = task,
                       view_assignments =
                         map (\<lambda>(a, g). (a, map_option agent_name g, role_of roles (asg_agent_id a)))
                           (select_assignments w taskId),
                       view_contributions =
                         map (\<lambda>c. (c, map_option agent_name
                                        (find (\<lambda>g. agent_id g = contrib_agent_id c) (agents w))))
                           (sort_key contrib_created_at
                              (filter (\<lambda>c. contrib_task_id c = taskId) (contributions w))),
                       view_isOwner = (task_user_id task = userId)\<rparr>)"

section \<open>Creating a task\<close>

record agent_profile =
  prof_id :: id
  prof_name :: string
  prof_role :: string
  prof_type :: string
  prof_isPrimary :: bool

record subtask =
  sub_agentId :: id
  sub_description :: "string option"

definition profile_of :: "member_row \<times> agent_row option \<Rightarrow> agent_profile" where
  "profile_of m =
     \<lparr>prof_id = member_agent_id (fst m),
      prof_name = or_else (map_option agent_name (snd m)) ''Unknown Agent'',
      prof_role = member_role (fst m),
      prof_type = or_else (Option.bind (snd m) agent_type) ''assistant'',
      prof_isPrimary = is_primary_agent (fst m)\<rparr>"

definition decomposition_prompt :: "string \<Rightarrow> agent_profile list \<Rightarrow> string" where
  "decomposition_prompt taskDescription agentProfiles =
     ''You are a task delegation expert. Given a complex task and a team of AI agents, '' @
     ''break down the task into specific subtasks for each agent.'' @ nl @ nl @
     ''Task: '' @ taskDescription @ nl @ nl @
     ''Team Members:'' @ nl @
     join nl (map (\<lambda>a. ''- '' @ prof_name a @ '' (Role: '' @ prof_role a @ '', Type: '' @
                        prof_type a @ '', Primary: '' @ show_bool (prof_isPrimary a) @ '')'')
                agentProfiles) @ nl @ nl @
     ''Generate a JSON array of subtasks. Each subtask should have:'' @ nl @
     ''- agentId: The agent'' @ [CHR 0x27] @ ''s ID'' @ nl @
     ''- description: Clear, specific subtask description (2-3 sentences)'' @ nl @ nl @
     ''The primary agent should coordinate and synthesize results. Other agents should '' @
     ''handle specific aspects based on their roles.'' @ nl @ nl @
     ''Respond with ONLY valid JSON array, no other text.''"

text \<open>
  \<^verbatim>\<open>subtasks.find((s) => s.agentId === agent.id)\<close>: reading \<^verbatim>\<open>agentId\<close> of a
  \<^verbatim>\<open>null\<close> element throws.
\<close>

fun find_subtask :: "json_item list \<Rightarrow> id \<Rightarrow> js_error + string option option" where
  "find_subtask [] a = Inr None"
| "find_subtask (JNull # xs) a = Inl (TypeError ''Cannot read properties of null'')"
| "find_subtask (JItem aid d # xs) a = (if aid = Some a then Inr (Some d) else find_subtask xs a)"

text \<open>The validation loop of \<^verbatim>\<open>generateSubtasks\<close> over the agent profiles.\<close>

fun assign_subtasks :: "json_item list \<Rightarrow> agent_profile list \<Rightarrow> js_error + subtask list" where
  "assign_subtasks subtasks [] = Inr []"
| "assign_subtasks subtasks (agent # rest) =
     (case find_subtask subtasks (prof_id agent) of
        Inl e \<Rightarrow> Inl e
      | Inr found \<Rightarrow>
          (case assign_subtasks subtasks rest of
             Inl e \<Rightarrow> Inl e
           | Inr others \<Rightarrow>
               Inr ((case found of
                       Some d \<Rightarrow> \<lparr>sub_agentId = prof_id agent, sub_description = d\<rparr>
                     | None \<Rightarrow>
                         \<lparr>sub_agentId = prof_id agent,
                          sub_description =
                            Some (''Provide analysis and insights from the perspective of '' @
                                  prof_role agent @ ''.'')\<rparr>) # others)))"

definition decomposition_request ::
  "string \<Rightarrow> string \<Rightarrow> (member_row \<times> agent_row option) list \<Rightarrow> llm_request" where
  "decomposition_request model taskDescription members =
     \<lparr>req_model = model,
      req_messages =
        [UserMsg (Text (decomposition_prompt taskDescription (map profile_of members)))],
      req_temperature = 0.7,
      req_max_tokens = Some 1000,
      req_logprobs = False\<rparr>"

text \<open>The subtasks of the \<^verbatim>\<open>catch\<close> block of \<^verbatim>\<open>generateSubtasks\<close>.\<close>

definition generic_subtasks :: "(member_row \<times> agent_row option) list \<Rightarrow> subtask list" where
  "generic_subtasks members =
     map (\<lambda>m. \<lparr>sub_agentId = member_agent_id (fst m),
                sub_description =
                  Some (''Analyze the task from the perspective of '' @
                        member_role (fst m) @ ''.'')\<rparr>) members"

text \<open>
  \<^verbatim>\<open>CollaborationService.generateSubtasks\<close>. Whatever is thrown inside (by the
  provider, by reading the reply, by the parser or by the validation loop) ends in the
  generic subtasks of the \<^verbatim>\<open>catch\<close> block.
\<close>

definition generateSubtasks ::
  "env \<Rightarrow> world \<Rightarrow> string \<Rightarrow> (member_row \<times> agent_row option) list \<Rightarrow> subtask list \<times> world" where
  "generateSubtasks env w taskDescription members =
     (let agentProfiles = map profile_of members;
          request = (\<lambda>model. decomposition_request model taskDescription members);
          generic = generic_subtasks members;
          parsed = (\<lambda>response.
            case choices response of
              [] \<Rightarrow> generic
            | c # _ \<Rightarrow>
                (case parse_subtasks env (or_else (message_content c) ''[]'') of
                   None \<Rightarrow> generic
                 | Some subtasks \<Rightarrow>
                     (case assign_subtasks subtasks agentProfiles of
                        Inl e \<Rightarrow> generic
                      | Inr result \<Rightarrow> result)))
      in
        case create_completion env w (request ''gpt-4o-mini'') of
          (Inr response, w1) \<Rightarrow> (parsed response, w1)
        | (Inl error, w1) \<Rightarrow>
            if isModelError error then
              (case create_completion env w1 (request ''gpt-3.5-turbo'') of
                 (Inr response, w2) \<Rightarrow> (parsed response, w2)
               | (Inl error2, w2) \<Rightarrow> (generic, w2))
            else (generic, w1))"

text \<open>The loop of \<^verbatim>\<open>createCollaborativeTask\<close> that inserts one assignment per subtask.\<close>

fun insert_assignments ::
  "env \<Rightarrow> id \<Rightarrow> nat \<Rightarrow> subtask list \<Rightarrow> world \<Rightarrow> (js_error + unit) \<times> world" where
  "insert_assignments env taskId i [] w = (Inr (), w)"
| "insert_assignments env taskId i (subtask # rest) w =
     (if fails env (CT_InsertAssignment i) then (Inl (db_error (CT_InsertAssignment i)), w)
      else
        insert_assignments env taskId (i + 1) rest
          (w\<lparr>assignments := assignments w @
               [\<lparr>asg_id = uuid env (CT_InsertAssignment i),
                 asg_task_id = taskId,
                 asg_agent_id = sub_agentId subtask,
                 subtask_description = sub_description subtask,
                 asg_status = PENDING,
                 asg_result = None,
                 started_at = None,
                 asg_completed_at = None,
                 execution_order = i + 1\<rparr>]\<rparr>))"

record task_data =
  d_title :: string
  d_description :: string
  d_priority :: "string option"
  d_parentTaskId :: "id option"

text \<open>The members of a team with their agent joined, primary agents first.\<close>

definition select_members :: "world \<Rightarrow> id \<Rightarrow> (member_row \<times> agent_row option) list" where
  "select_members w teamId =
     map (\<lambda>m. (m, find (\<lambda>a. agent_id a = member_agent_id m) (agents w)))
       (sort_key (\<lambda>m. if is_primary_agent m then 0 else (1::nat))
          (filter (\<lambda>m. member_team_id m = teamId) (team_members w)))"

text \<open>
  \<^verbatim>\<open>CollaborationService.createCollaborativeTask\<close>. The world is returned also when the
  call throws: rows inserted before the failure stay.
\<close>

definition createCollaborativeTask ::
  "env \<Rightarrow> world \<Rightarrow> id \<Rightarrow> id \<Rightarrow> task_data \<Rightarrow> (js_error + task_view) \<times> world" where
  "createCollaborativeTask env w teamId userId data =
     (let taskId = uuid env CT_InsertTask;
          now = clock env CT_InsertTask;
          versionNumber =
            (case d_parentTaskId data of
               None \<Rightarrow> 1
             | Some p \<Rightarrow>
                 if p = [] \<or> fails env CT_SelectParent then 1
                 else
                   (case single (filter (\<lambda>t. task_id t = p) (tasks w)) of
                      None \<Rightarrow> 1
                    | Some parentTask \<Rightarrow> version_number parentTask + 1))
      in
        if fails env CT_InsertTask then (Inl (db_error CT_InsertTask), w)
        else
          let w1 = w\<lparr>tasks := tasks w @
                      [\<lparr>task_id = taskId,
                        task_team_id = teamId,
                        task_user_id = userId,
                        task_title = d_title data,
                        task_description = d_description data,
                        task_status = PENDING,
                        task_priority = or_else (d_priority data) ''MEDIUM'',
                        task_result = None,
                        version_number = versionNumber,
                        parent_task_id =
                          (case d_parentTaskId data of
                             None \<Rightarrow> None
                           | Some p \<Rightarrow> if p = [] then None else Some p),
                        feedback = None,
                        task_created_at = now,
                        task_completed_at = None\<rparr>]\<rparr>
          in
            if fails env CT_SelectMembers then (Inl (db_error CT_SelectMembers), w1)
            else
              let members = select_members w1 teamId in
              case generateSubtasks env w1 (d_description data) members of
                (subtasks, w2) \<Rightarrow>
                  (case insert_assignments env taskId 0 subtasks w2 of
                     (Inl e, w3) \<Rightarrow> (Inl e, w3)
                   | (Inr u, w3) \<Rightarrow> (getTaskById env w3 taskId userId, w3)))"

record version_updates =
  u_title :: "string option"
  u_description :: "string option"
  u_priority :: "string option"

text \<open>\<^verbatim>\<open>CollaborationService.createTaskVersion\<close>.\<close>

definition createTaskVersion ::
  "env \<Rightarrow> world \<Rightarrow> id \<Rightarrow> id \<Rightarrow> version_updates \<Rightarrow> (js_error + task_view) \<times> world" where
  "createTaskVersion env w originalTaskId userId updates =
     (case getTaskById env w originalTaskId userId of
        Inl e \<Rightarrow> (Inl e, w)
      | Inr originalTask \<Rightarrow>
          createCollaborativeTask env w (task_team_id (view_task originalTask)) userId
            \<lparr>d_title = or_else (u_title updates) (task_title (view_task originalTask)),
             d_description =
               or_else (u_description updates) (task_description (view_task originalTask)),
             d_priority =
               Some (or_else (u_priority updates) (task_priority (view_task originalTask))),
             d_parentTaskId =
               Some (or_else (parent_task_id (view_task originalTask)) originalTaskId)\<rparr>)"


section \<open>Executing a task\<close>

text \<open>
  \<^verbatim>\<open>executeAgentSubtask\<close> takes its \<^verbatim>\<open>assignment\<close> argument untyped and reads the
  properties \<^verbatim>\<open>configuration\<close>, \<^verbatim>\<open>name\<close>, \<^verbatim>\<open>role\<close>, \<^verbatim>\<open>subtaskDescription\<close> and
  \<^verbatim>\<open>agentId\<close> of it. For \<^verbatim>\<open>JSON.parse(assignment.configuration || "{}")\<close> followed by
  \<^verbatim>\<open>config.model\<close> there are three cases: the property is absent or empty, the
  parse or the read throws, or a (possibly absent) model name comes out.
\<close>

datatype configuration = CfgAbsent | CfgInvalid | CfgParsed "string option"

record subtask_arg =
  arg_name :: "string option"
  arg_role :: "string option"
  arg_subtaskDescription :: "string option"
  arg_configuration :: configuration
  arg_agentId :: "id option"

record contribution_entry =
  c_agentName :: string
  c_role :: string
  c_result :: string

record image_attachment =
  img_filename :: string
  img_base64 :: string
  img_mimeType :: string

record subtask_outcome =
  out_result :: string
  out_confidence :: "real option"

text \<open>The paperclip sign of the document context, as the bytes of its UTF-8 encoding.\<close>

definition paperclip :: string where
  "paperclip = [CHR 0xF0, CHR 0x9F, CHR 0x93, CHR 0x8E]"

definition previous_context :: "contribution_entry list \<Rightarrow> string" where
  "previous_context previousContributions =
     (if length previousContributions > 0 then
        nl @ nl @ ''Previous team contributions:'' @ nl @
        join (nl @ nl)
          (map (\<lambda>c. c_agentName c @ '' ('' @ c_role c @ ''): '' @ c_result c) previousContributions)
      else [])"

definition agent_system_prompt ::
  "subtask_arg \<Rightarrow> string \<Rightarrow> contribution_entry list \<Rightarrow> string list \<Rightarrow> string" where
  "agent_system_prompt assignment mainTaskDescription previousContributions documentAttachments =
     (let context = previous_context previousContributions;
          docContext =
            (if length documentAttachments > 0 then
               nl @ nl @ paperclip @ '' Attached documents:'' @ nl @
               join nl (map (\<lambda>d. ''- '' @ d) documentAttachments)
             else [])
      in
        ''You are '' @ show_opt (arg_name assignment) @
        '', a specialized AI agent with the role of '' @ show_opt (arg_role assignment) @ ''.'' @
        nl @ nl @
        ''Main Task: '' @ mainTaskDescription @ docContext @ nl @ nl @
        ''Your specific subtask: '' @ show_opt (arg_subtaskDescription assignment) @ context @
        nl @ nl @
        ''Provide a focused, actionable response for your specific subtask. '' @
        ''Be concise and professional.'')"

definition agent_user_content :: "image_attachment list \<Rightarrow> msg_content" where
  "agent_user_content imageAttachments =
     (if length imageAttachments > 0 then
        Parts
          (TextPart
             (''Analyze the attached image(s) and complete your subtask.'' @ nl @ nl @
              ''Images: '' @ join '', '' (map img_filename imageAttachments)) #
           map (\<lambda>img. ImageUrlPart (''data:'' @ img_mimeType img @ '';base64,'' @ img_base64 img))
             imageAttachments)
      else Text ''Complete your assigned subtask based on the above context.'')"

definition agent_request ::
  "string \<Rightarrow> subtask_arg \<Rightarrow> string \<Rightarrow> contribution_entry list \<Rightarrow> image_attachment list \<Rightarrow>
   string list \<Rightarrow> llm_request" where
  "agent_request model assignment mainTaskDescription previousContributions imageAttachments
     documentAttachments =
     \<lparr>req_model = model,
      req_messages =
        [SystemMsg (agent_system_prompt assignment mainTaskDescription previousContributions
                      documentAttachments),
         UserMsg (agent_user_content imageAttachments)],
      req_temperature = 0.7,
      req_max_tokens = None,
      req_logprobs = True\<rparr>"

definition subtask_failed :: "js_error \<Rightarrow> subtask_outcome" where
  "subtask_failed error =
     \<lparr>out_result = ''Error executing subtask: '' @ error_text error, out_confidence = None\<rparr>"

text \<open>From the reply to the returned pair, with the \<^verbatim>\<open>agent_stream\<close> event in between.\<close>

definition subtask_reply :: "subtask_arg \<Rightarrow> llm_response \<Rightarrow> world \<Rightarrow> subtask_outcome \<times> world" where
  "subtask_reply assignment response w =
     (case choices response of
        [] \<Rightarrow> (subtask_failed (TypeError ''Cannot read properties of undefined''), w)
      | c # _ \<Rightarrow>
          let fullResponse = or_else (message_content c) [];
              confidence = computeConfidenceFromLogprobs (choice_logprobs c)
          in (\<lparr>out_result = trim fullResponse, out_confidence = confidence\<rparr>,
              sendEvent (EvAgentStream (arg_agentId assignment) fullResponse) w))"

text \<open>\<^verbatim>\<open>config.model || "gpt-4o-mini"\<close>.\<close>

definition configured_model :: "subtask_arg \<Rightarrow> string" where
  "configured_model assignment =
     or_else (case arg_configuration assignment of CfgParsed m \<Rightarrow> m | _ \<Rightarrow> None) ''gpt-4o-mini''"

text \<open>
  \<^verbatim>\<open>CollaborationService.executeAgentSubtask\<close>. It never throws: its \<^verbatim>\<open>catch\<close> block
  turns every error into a result text.
\<close>

definition executeAgentSubtask ::
  "env \<Rightarrow> world \<Rightarrow> subtask_arg \<Rightarrow> string \<Rightarrow> contribution_entry list \<Rightarrow> image_attachment list \<Rightarrow>
   string list \<Rightarrow> subtask_outcome \<times> world" where
  "executeAgentSubtask env w assignment mainTaskDescription previousContributions imageAttachments
     documentAttachments =
     (case arg_configuration assignment of
        CfgInvalid \<Rightarrow> (subtask_failed (SyntaxError ''Unexpected token in JSON''), w)
      | cfg \<Rightarrow>
          let model = configured_model assignment;
              request = (\<lambda>m. agent_request m assignment mainTaskDescription previousContributions
                                imageAttachments documentAttachments)
          in
            case create_completion env w (request model) of
              (Inr response, w1) \<Rightarrow> subtask_reply assignment response w1
            | (Inl error, w1) \<Rightarrow>
                if isModelError error \<and> model \<noteq> ''gpt-4o-mini'' then
                  (case create_completion env w1 (request ''gpt-4o-mini'') of
                     (Inr response, w2) \<Rightarrow> subtask_reply assignment response w2
                   | (Inl error2, w2) \<Rightarrow> (subtask_failed (ApiError error2), w2))
                else (subtask_failed (ApiError error), w1))"

definition synthesis_prompt :: "string \<Rightarrow> contribution_entry list \<Rightarrow> string" where
  "synthesis_prompt taskDescription contribs =
     ''You are a synthesis coordinator. Multiple AI agents have worked on different aspects '' @
     ''of a task. Your job is to combine their contributions into a comprehensive, cohesive '' @
     ''final result.'' @ nl @ nl @
     ''Task: '' @ taskDescription @ nl @ nl @
     ''Agent Contributions:'' @ nl @
     join (nl @ nl @ ''---'' @ nl)
       (map (\<lambda>c. nl @ c_agentName c @ '' ('' @ c_role c @ ''):'' @ nl @ c_result c) contribs) @
     nl @ nl @
     ''Synthesize these contributions into a comprehensive final result that:'' @ nl @
     ''1. Integrates all key insights from each agent'' @ nl @
     ''2. Resolves any conflicts or contradictions'' @ nl @
     ''3. Provides clear, actionable recommendations'' @ nl @
     ''4. Maintains professional tone'' @ nl @ nl @
     ''Provide the final synthesized result:''"

definition synthesis_request :: "string \<Rightarrow> string \<Rightarrow> contribution_entry list \<Rightarrow> llm_request" where
  "synthesis_request model taskDescription contribs =
     \<lparr>req_model = model,
      req_messages = [UserMsg (Text (synthesis_prompt taskDescription contribs))],
      req_temperature = 0.5,
      req_max_tokens = Some 1500,
      req_logprobs = False\<rparr>"

text \<open>The text of the \<^verbatim>\<open>catch\<close> block of \<^verbatim>\<open>synthesizeResults\<close>.\<close>

definition concatenated_contributions :: "contribution_entry list \<Rightarrow> string" where
  "concatenated_contributions contribs =
     join (nl @ nl) (map (\<lambda>c. c_agentName c @ '': '' @ c_result c) contribs)"

text \<open>
  \<^verbatim>\<open>CollaborationService.synthesizeResults\<close>. It never throws either: its \<^verbatim>\<open>catch\<close>
  block returns the contributions, concatenated.
\<close>

definition synthesizeResults ::
  "env \<Rightarrow> world \<Rightarrow> string \<Rightarrow> contribution_entry list \<Rightarrow> string \<times> world" where
  "synthesizeResults env w taskDescription contribs =
     (let concatenated = concatenated_contributions contribs;
          reply = (\<lambda>response.
            case choices response of
              [] \<Rightarrow> concatenated
            | c # _ \<Rightarrow> or_else (message_content c) ''Synthesis failed'')
      in
        case create_completion env w (synthesis_request ''gpt-4o-mini'' taskDescription contribs) of
          (Inr response, w1) \<Rightarrow> (reply response, w1)
        | (Inl error, w1) \<Rightarrow>
            if isModelError error then
              (case create_completion env w1
                      (synthesis_request ''gpt-3.5-turbo'' taskDescription contribs) of
                 (Inr response, w2) \<Rightarrow> (reply response, w2)
               | (Inl error2, w2) \<Rightarrow> (concatenated, w2))
            else (concatenated, w1))"

text \<open>
  The attachments of the task: images that can be read are loaded, the other files are
  listed by name and type.
\<close>

fun process_attachments ::
  "env \<Rightarrow> attachment_row list \<Rightarrow> image_attachment list \<times> string list" where
  "process_attachments env [] = ([], [])"
| "process_attachments env (att # rest) =
     (case process_attachments env rest of
        (images, documents) \<Rightarrow>
          (case file_type att of
             None \<Rightarrow> (images, (original_file_name att @ '' (null)'') # documents)
           | Some ft \<Rightarrow>
               if startsWith ft ''image/'' then
                 (case read_base64 env (file_path att) of
                    None \<Rightarrow> (images, documents)
                  | Some base64 \<Rightarrow>
                      (\<lparr>img_filename = original_file_name att, img_base64 = base64,
                        img_mimeType = ft\<rparr> # images, documents))
               else (images, (original_file_name att @ '' ('' @ ft @ '')'') # documents)))"

text \<open>
  The query for the attachments of the task, oldest first, and their processing. An
  error of the query is not thrown: the task then runs without attachments.
\<close>

definition load_attachments :: "env \<Rightarrow> world \<Rightarrow> id \<Rightarrow> image_attachment list \<times> string list" where
  "load_attachments env w taskId =
     process_attachments env
       (if fails env EX_SelectAttachments then []
        else sort_key uploaded_at (filter (\<lambda>a. att_task_id a = taskId) (attachments w)))"

text \<open>
  The object \<^verbatim>\<open>executeCollaborativeTask\<close> hands to \<^verbatim>\<open>executeAgentSubtask\<close> is the
  row of \<^verbatim>\<open>task_assignments\<close> with the agent nested under \<^verbatim>\<open>agents\<close>. Its properties
  are the snake-case columns; none of the five properties \<^verbatim>\<open>executeAgentSubtask\<close>
  reads is among them.
\<close>

definition row_as_arg :: "assignment_row \<times> agent_row option \<Rightarrow> subtask_arg" where
  "row_as_arg row =
     \<lparr>arg_name = None, arg_role = None, arg_subtaskDescription = None,
      arg_configuration = CfgAbsent, arg_agentId = None\<rparr>"

definition update_assignment ::
  "id \<Rightarrow> (assignment_row \<Rightarrow> assignment_row) \<Rightarrow> world \<Rightarrow> world" where
  "update_assignment i f w =
     w\<lparr>assignments := map (\<lambda>r. if asg_id r = i then f r else r) (assignments w)\<rparr>"

definition update_task :: "id \<Rightarrow> (task_row \<Rightarrow> task_row) \<Rightarrow> world \<Rightarrow> world" where
  "update_task i f w = w\<lparr>tasks := map (\<lambda>t. if task_id t = i then f t else t) (tasks w)\<rparr>"


text \<open>
  The body of the loop of \<^verbatim>\<open>executeCollaborativeTask\<close>, for one assignment and the
  contributions gathered so far: the entry pushed to \<^verbatim>\<open>contributions\<close>, or (\<open>Inl\<close>) an
  exception on its way to the \<^verbatim>\<open>catch\<close> block of \<^verbatim>\<open>executeCollaborativeTask\<close>.
\<close>

definition assignment_step ::
  "env \<Rightarrow> id \<Rightarrow> string \<Rightarrow> (id \<Rightarrow> string option) \<Rightarrow> image_attachment list \<Rightarrow> string list \<Rightarrow>
   assignment_row \<times> agent_row option \<Rightarrow> contribution_entry list \<Rightarrow> world \<Rightarrow>
   (js_error + contribution_entry) \<times> world" where
  "assignment_step env taskId description roles images documents assignment contribs w =
     (let a = fst assignment;
          role = role_of roles (asg_agent_id a)
      in
        case snd assignment of
          None \<Rightarrow> (Inl (TypeError ''Cannot read properties of null''), w)
        | Some agent \<Rightarrow>
            let w1 = sendEvent (EvAgentStart (asg_agent_id a) (agent_name agent) role
                                  (subtask_description a)) w
            in
              if fails env (EX_StartAssignment (asg_id a))
              then (Inl (db_error (EX_StartAssignment (asg_id a))), w1)
              else
                let w2 = update_assignment (asg_id a)
                           (\<lambda>r. r\<lparr>asg_status := IN_PROGRESS,
                                   started_at := Some (clock env (EX_StartAssignment (asg_id a)))\<rparr>)
                           w1
                in
                  case executeAgentSubtask env w2 (row_as_arg assignment) description contribs
                         images documents of
                    (outcome, w3) \<Rightarrow>
                      if fails env (EX_SaveResult (asg_id a))
                      then (Inl (db_error (EX_SaveResult (asg_id a))), w3)
                      else
                        let w4 = update_assignment (asg_id a)
                                   (\<lambda>r. r\<lparr>asg_status := COMPLETED,
                                           asg_result := Some (out_result outcome),
                                           asg_completed_at :=
                                             Some (clock env (EX_SaveResult (asg_id a)))\<rparr>)
                                   w3
                        in
                          if fails env (EX_InsertContribution (asg_id a))
                          then (Inl (db_error (EX_InsertContribution (asg_id a))), w4)
                          else
                            let w5 = w4\<lparr>contributions := contributions w4 @
                                         [\<lparr>contrib_id = uuid env (EX_InsertContribution (asg_id a)),
                                           contrib_task_id = taskId,
                                           contrib_agent_id = asg_agent_id a,
                                           contribution = out_result outcome,
                                           confidence = 0.85,
                                           contrib_created_at =
                                             clock env (EX_InsertContribution (asg_id a))\<rparr>]\<rparr>
                            in
                              (Inr \<lparr>c_agentName = agent_name agent, c_role = role,
                                    c_result = out_result outcome\<rparr>,
                               sendEvent (EvAgentComplete (asg_agent_id a) (agent_name agent)
                                            (out_result outcome)) w5))"

text \<open>
  The loop itself, over the assignments read before it: it stops at the first
  exception.
\<close>

fun run_assignments ::
  "env \<Rightarrow> id \<Rightarrow> string \<Rightarrow> (id \<Rightarrow> string option) \<Rightarrow> image_attachment list \<Rightarrow> string list \<Rightarrow>
   (assignment_row \<times> agent_row option) list \<Rightarrow> contribution_entry list \<Rightarrow> world \<Rightarrow>
   (js_error + contribution_entry list) \<times> world" where
  "run_assignments env taskId description roles images documents [] contribs w = (Inr contribs, w)"
| "run_assignments env taskId description roles images documents (assignment # rest) contribs w =
     (case assignment_step env taskId description roles images documents assignment contribs w of
        (Inl e, w') \<Rightarrow> (Inl e, w')
      | (Inr entry, w') \<Rightarrow>
          run_assignments env taskId description roles images documents rest
            (contribs @ [entry]) w')"

text \<open>The \<^verbatim>\<open>try\<close> block of \<^verbatim>\<open>executeCollaborativeTask\<close>.\<close>

definition execute_body :: "env \<Rightarrow> world \<Rightarrow> id \<Rightarrow> id \<Rightarrow> (js_error + unit) \<times> world" where
  "execute_body env w taskId userId =
     (if fails env EX_SetInProgress then (Inl (db_error EX_SetInProgress), w)
      else
        let w1 = sendEvent (EvStatus ''Starting collaborative task execution...'')
                   (update_task taskId (\<lambda>t. t\<lparr>task_status := IN_PROGRESS\<rparr>) w)
        in
          if fails env EX_SelectTask then (Inl (db_error EX_SelectTask), w1)
          else
            case filter (\<lambda>t. task_id t = taskId \<and> task_user_id t = userId) (tasks w1) of
              [] \<Rightarrow> (Inr (), sendEvent StreamEnd (sendEvent (EvError ''Task not found'') w1))
            | task # _ \<Rightarrow>
                let loaded = load_attachments env w1 taskId
                in
                  if fails env EX_SelectAssignments then (Inl (db_error EX_SelectAssignments), w1)
                  else if fails env EX_SelectMembers then (Inl (db_error EX_SelectMembers), w1)
                  else
                    let roles = agentRoleMap
                                  (filter (\<lambda>m. member_team_id m = task_team_id task)
                                     (team_members w1))
                    in
                      case run_assignments env taskId (task_description task) roles
                             (fst loaded) (snd loaded) (select_assignments w1 taskId) [] w1 of
                        (Inl e, w2) \<Rightarrow> (Inl e, w2)
                      | (Inr contribs, w2) \<Rightarrow>
                          (case synthesizeResults env
                                  (sendEvent (EvSynthesis ''Synthesizing team results...'') w2)
                                  (task_description task) contribs of
                             (finalResult, w3) \<Rightarrow>
                               if fails env EX_FinalUpdate then (Inl (db_error EX_FinalUpdate), w3)
                               else
                                 (Inr (),
                                  sendEvent StreamEnd
                                    (sendEvent (EvComplete finalResult)
                                       (update_task taskId
                                          (\<lambda>t. t\<lparr>task_status := COMPLETED,
                                                  task_result := Some finalResult,
                                                  task_completed_at :=
                                                    Some (clock env EX_FinalUpdate)\<rparr>)
                                          w3)))))"

text \<open>
  \<^verbatim>\<open>CollaborationService.executeCollaborativeTask\<close>: the \<^verbatim>\<open>try\<close> block, and the
  \<^verbatim>\<open>catch\<close> block that sets the task back to \<^verbatim>\<open>PENDING\<close> (ignoring whether that update
  succeeds) and reports the error.
\<close>

definition executeCollaborativeTask :: "env \<Rightarrow> world \<Rightarrow> id \<Rightarrow> id \<Rightarrow> world" where
  "executeCollaborativeTask env w taskId userId =
     (case execute_body env w taskId userId of
        (Inr u, w') \<Rightarrow> w'
      | (Inl error, w') \<Rightarrow>
          sendEvent StreamEnd
            (sendEvent (EvError (error_message error))
               (if fails env EX_Reset then w'
                else update_task taskId (\<lambda>t. t\<lparr>task_status := PENDING\<rparr>) w')))"


section \<open>A small team, for concrete runs\<close>

text \<open>
  Alice owns a team of two agents and one task on it, with one assignment per agent.
  Carol holds an approved share of one of Alice's agents.
\<close>

definition demo_world :: world where
  "demo_world =
     \<lparr>teams =
        [\<lparr>team_id = ''team1'', team_name = ''Research'', team_description = [],
          team_user_id = ''alice'', team_objective = [], team_status = ''ACTIVE'',
          team_created_at = 1, team_updated_at = 1\<rparr>],
      team_members =
        [\<lparr>member_id = ''m1'', member_team_id = ''team1'', member_agent_id = ''a1'',
          member_role = ''Lead'', is_primary_agent = True, added_at = 2\<rparr>,
         \<lparr>member_id = ''m2'', member_team_id = ''team1'', member_agent_id = ''a2'',
          member_role = ''Analyst'', is_primary_agent = False, added_at = 3\<rparr>],
      agents =
        [\<lparr>agent_id = ''a1'', agent_user_id = ''alice'', agent_name = ''Ada'',
          agent_type = None\<rparr>,
         \<lparr>agent_id = ''a2'', agent_user_id = ''alice'', agent_name = ''Ben'',
          agent_type = Some ''analyst''\<rparr>],
      tasks =
        [\<lparr>task_id = ''task1'', task_team_id = ''team1'', task_user_id = ''alice'',
          task_title = ''Plan'', task_description = ''Write a plan'', task_status = PENDING,
          task_priority = ''MEDIUM'', task_result = None, version_number = 1,
          parent_task_id = None, feedback = None, task_created_at = 4,
          task_completed_at = None\<rparr>],
      assignments =
        [\<lparr>asg_id = ''s1'', asg_task_id = ''task1'', asg_agent_id = ''a1'',
          subtask_description = Some ''Coordinate'', asg_status = PENDING, asg_result = None,
          started_at = None, asg_completed_at = None, execution_order = 1\<rparr>,
         \<lparr>asg_id = ''s2'', asg_task_id = ''task1'', asg_agent_id = ''a2'',
          subtask_description = Some ''Analyse'', asg_status = PENDING, asg_result = None,
          started_at = None, asg_completed_at = None, execution_order = 2\<rparr>],
      contributions = [],
      share_requests =
        [\<lparr>sr_resource_type = ''agent'', sr_resource_id = ''a1'',
          sr_requester_user_id = ''carol'', sr_status = ''approved''\<rparr>],
      attachments = [],
      llm_log = [],
      events = []\<rparr>"

text \<open>A reply whose only token has log-probability 0, that is, probability 1.\<close>

definition sure_reply :: "string \<Rightarrow> llm_response" where
  "sure_reply s =
     \<lparr>choices =
        [\<lparr>message_content = Some s,
          choice_logprobs = Some \<lparr>content = Some [\<lparr>token = s, logprob = Some 0\<rparr>]\<rparr>\<rparr>]\<rparr>"

definition demo_uuid :: "string \<Rightarrow> db_op \<Rightarrow> id" where
  "demo_uuid new_task op =
     (case op of
        CT_InsertTask \<Rightarrow> new_task
      | CT_InsertAssignment i \<Rightarrow> new_task @ ''-s'' @ replicate i (CHR ''i'')
      | EX_InsertContribution a \<Rightarrow> ''c-'' @ a
      | _ \<Rightarrow> ''uuid'')"

text \<open>No database call fails; the provider answers every request with \<open>done\<close>.\<close>

definition demo_env :: "string \<Rightarrow> env" where
  "demo_env new_task =
     \<lparr>fails = (\<lambda>op. False),
      clock = (\<lambda>op. 100),
      uuid = demo_uuid new_task,
      llm = (\<lambda>history req. Inr (sure_reply ''done'')),
      parse_subtasks = (\<lambda>s. None),
      read_base64 = (\<lambda>path. None)\<rparr>"



text \<open>The provider rejects every request: the model does not exist.\<close>

definition model_not_found :: llm_error where
  "model_not_found =
     \<lparr>err_status = Some 404, err_code = Some ''model_not_found'',
      err_message = Some ''The model does not exist'', err_inner_code = None\<rparr>"

definition no_model_env :: env where
  "no_model_env = (demo_env ''task2'')\<lparr>llm := (\<lambda>history req. Inl model_not_found)\<rparr>"


text \<open>
  The provider's decomposition names the second agent only; the first one is omitted.
\<close>

definition omitting_env :: env where
  "omitting_env =
     (demo_env ''task2'')
       \<lparr>parse_subtasks := (\<lambda>s. Some [JItem (Some ''a2'') (Some ''Check the numbers'')])\<rparr>"

definition demo_data :: task_data where
  "demo_data =
     \<lparr>d_title = ''Report'', d_description = ''Write a report'', d_priority = None,
      d_parentTaskId = None\<rparr>"


definition no_updates :: version_updates where
  "no_updates = \<lparr>u_title = None, u_description = None, u_priority = None\<rparr>"






section \<open>Evaluating the services on the small team\<close>

lemmas demo_defs = demo_env_def demo_world_def demo_uuid_def sure_reply_def

lemmas create_defs = createCollaborativeTask_def generateSubtasks_def generic_subtasks_def
  create_completion_def getTaskById_def select_members_def select_assignments_def single_def
  or_else_def isModelError_def

lemmas exec_defs = executeCollaborativeTask_def execute_body_def load_attachments_def
  assignment_step_def executeAgentSubtask_def configured_model_def subtask_reply_def
  synthesizeResults_def concatenated_contributions_def update_task_def update_assignment_def
  sendEvent_def agentRoleMap_def role_of_def row_as_arg_def subtask_failed_def

section \<open>Properties of the confidence score\<close>

lemma map_filter_empty_iff:
  "List.map_filter f xs = [] \<longleftrightarrow> (\<forall>x\<in>set xs. f x = None)"
  by (induction xs) (auto split: option.splits)

text \<open>
  C10. \<^verbatim>\<open>computeConfidenceFromLogprobs\<close> returns \<^verbatim>\<open>null\<close> exactly when the logprobs
  object is absent, has no content (absent or empty), or no token carries a non-null
  logprob; every other result is a number between 0 and 100 inclusive. The function is
  defined on every input of its type.
\<close>

theorem computeConfidence_null_or_in_range:
  "(computeConfidenceFromLogprobs lp = None \<longleftrightarrow>
      (lp = None \<or>
       (\<exists>l. lp = Some l \<and>
            (content l = None \<or>
             (\<exists>cs. content l = Some cs \<and> (cs = [] \<or> (\<forall>t\<in>set cs. logprob t = None))))))) \<and>
   (\<forall>c. computeConfidenceFromLogprobs lp = Some c \<longrightarrow> 0 \<le> c \<and> c \<le> 100)"
proof (cases lp)
  case None
  then show ?thesis by (simp add: computeConfidenceFromLogprobs_def)
next
  case (Some l)
  show ?thesis
  proof (cases "content l")
    case None
    with Some show ?thesis by (simp add: computeConfidenceFromLogprobs_def)
  next
    case inner: (Some cs)
    show ?thesis
      using Some inner
      by (auto simp: computeConfidenceFromLogprobs_def Let_def map_filter_empty_iff)
  qed
qed

theorem computeConfidence_null_or_in_range_witness:
  "computeConfidenceFromLogprobs
     (Some \<lparr>content = Some [\<lparr>token = ''a'', logprob = Some 0\<rparr>]\<rparr>) = Some 100 \<and>
   computeConfidenceFromLogprobs
     (Some \<lparr>content = Some [\<lparr>token = ''a'', logprob = None\<rparr>]\<rparr>) = None"
  using computeConfidence_null_or_in_range
          [of "Some \<lparr>content = Some [\<lparr>token = ''a'', logprob = Some 0\<rparr>]\<rparr>"]
        computeConfidence_null_or_in_range
          [of "Some \<lparr>content = Some [\<lparr>token = ''a'', logprob = None\<rparr>]\<rparr>"]
  by (simp add: computeConfidenceFromLogprobs_def)

section \<open>Archiving a team\<close>

lemma load_members_teams:
  "load_members env w ts = Inr r \<Longrightarrow> map fst r = ts"
  by (induction ts arbitrary: r) (auto split: sum.splits)

lemma getTeamsByUser_rows:
  assumes "getTeamsByUser env w userId = Inr r" and "(t, ms) \<in> set r"
  shows "t \<in> set (teams w) \<and> team_user_id t = userId \<and> team_status t = ''ACTIVE''"
proof -
  from assms(1) have
    "map fst r = rev (sort_key team_created_at
        (filter (\<lambda>t. team_user_id t = userId \<and> team_status t = ''ACTIVE'') (teams w)))"
    by (auto simp: getTeamsByUser_def Let_def dest: load_members_teams split: if_splits)
  then have "set (map fst r) =
      set (filter (\<lambda>t. team_user_id t = userId \<and> team_status t = ''ACTIVE'') (teams w))"
    by simp
  moreover from assms(2) have "t \<in> set (map fst r)" by force
  ultimately show ?thesis by auto
qed

text \<open>
  C8. \<^verbatim>\<open>deleteTeam\<close> archives instead of deleting: after a successful call by the owner
  the team's row is still there with status \<^verbatim>\<open>ARCHIVED\<close> and all its other fields as
  before, no row was removed or changed otherwise, no other table changed, and
  \<^verbatim>\<open>getTeamsByUser\<close> for the owner, which lists \<^verbatim>\<open>ACTIVE\<close> teams only, no longer returns
  the team.
\<close>

theorem deleteTeam_archives:
  assumes "deleteTeam env w teamId userId = (Inr u, w')"
    and "t \<in> set (teams w)" and "team_id t = teamId" and "team_user_id t = userId"
  shows "t\<lparr>team_status := ''ARCHIVED''\<rparr> \<in> set (teams w') \<and>
         length (teams w') = length (teams w) \<and>
         (\<forall>i < length (teams w).
            teams w' ! i = teams w ! i \<or>
            (team_id (teams w ! i) = teamId \<and> 
             teams w' ! i = (teams w ! i)\<lparr>team_status := ''ARCHIVED''\<rparr>)) \<and>
         w' = w\<lparr>teams := teams w'\<rparr> \<and>
         (\<forall>env' r. getTeamsByUser env' w' userId = Inr r \<longrightarrow> teamId \<notin> team_id ` fst ` set r)"
proof -
  define f :: "team_row \<Rightarrow> team_row" where "f = (\<lambda>t. if team_id t = teamId \<and> team_user_id t = userId
                 then t\<lparr>team_status := ''ARCHIVED''\<rparr> else t)"
  from assms(1) have w': "w' = w\<lparr>teams := map f (teams w)\<rparr>"
    by (simp add: deleteTeam_def f_def split: if_splits)
  then have tw: "teams w' = map f (teams w)" by simp
  have "f t = t\<lparr>team_status := ''ARCHIVED''\<rparr>" using assms(3,4) by (simp add: f_def)
  then have a: "t\<lparr>team_status := ''ARCHIVED''\<rparr> \<in> set (teams w')"
    using assms(2) tw by (metis image_eqI set_map)
  have b: "length (teams w') = length (teams w)" using tw by simp
  have c: "\<forall>i < length (teams w).
            teams w' ! i = teams w ! i \<or>
            (team_id (teams w ! i) = teamId \<and> 
             teams w' ! i = (teams w ! i)\<lparr>team_status := ''ARCHIVED''\<rparr>)"
    using tw by (simp add: f_def)
  have d: "w' = w\<lparr>teams := teams w'\<rparr>" by (subst tw) (rule w')
  have e: "\<forall>env' r. getTeamsByUser env' w' userId = Inr r \<longrightarrow> teamId \<notin> team_id ` fst ` set r"
  proof (intro allI impI notI)
    fix env' r assume r: "getTeamsByUser env' w' userId = Inr r"
      and "teamId \<in> team_id ` fst ` set r"
    then obtain t' ms where in_r: "(t', ms) \<in> set r" and tid: "team_id t' = teamId" by force
    from getTeamsByUser_rows[OF r in_r]
    have t': "t' \<in> set (teams w')" "team_user_id t' = userId" "team_status t' = ''ACTIVE''" by auto
    from t'(1) tw obtain t0 where "t' = f t0" by auto
    with tid t'(2,3) show False by (simp add: f_def split: if_splits)
  qed
  from a b c d e show ?thesis by blast
qed

theorem deleteTeam_archives_witness:
  "deleteTeam (demo_env ''task2'') demo_world ''team1'' ''alice'' =
     (Inr (), snd (deleteTeam (demo_env ''task2'') demo_world ''team1'' ''alice'')) \<and>
   hd (teams demo_world) \<in> set (teams demo_world) \<and>
   team_id (hd (teams demo_world)) = ''team1'' \<and>
   team_user_id (hd (teams demo_world)) = ''alice'' \<and>
   map team_status (teams (snd (deleteTeam (demo_env ''task2'') demo_world ''team1'' ''alice''))) =
     [''ARCHIVED''] \<and>
   getTeamsByUser (demo_env ''task2'')
     (snd (deleteTeam (demo_env ''task2'') demo_world ''team1'' ''alice'')) ''alice'' = Inr []"
proof -
  have run: "deleteTeam (demo_env ''task2'') demo_world ''team1'' ''alice'' =
     (Inr (), snd (deleteTeam (demo_env ''task2'') demo_world ''team1'' ''alice''))"
    by (simp add: deleteTeam_def demo_env_def)
  have row: "hd (teams demo_world) \<in> set (teams demo_world)"
    "team_id (hd (teams demo_world)) = ''team1''"
    "team_user_id (hd (teams demo_world)) = ''alice''"
    by (simp_all add: demo_world_def)
  from deleteTeam_archives[OF run row]
  have "length (teams (snd (deleteTeam (demo_env ''task2'') demo_world ''team1'' ''alice''))) =
        length (teams demo_world)"
    by blast
  with run row show ?thesis
    by (simp add: deleteTeam_def demo_env_def demo_world_def getTeamsByUser_def)
qed

section \<open>Recording feedback\<close>







section \<open>One assignment per team member\<close>

lemma assign_subtasks_agents:
  "assign_subtasks subtasks profiles = Inr result \<Longrightarrow> map sub_agentId result = map prof_id profiles"
proof (induction profiles arbitrary: result)
  case Nil
  then show ?case by simp
next
  case (Cons p ps)
  then show ?case by (auto split: sum.splits option.splits)
qed

lemma create_completion_tables:
  "create_completion env w req = (r, w1) \<Longrightarrow>
   w1 = w\<lparr>llm_log := llm_log w @ [req]\<rparr> \<and> r = llm env (llm_log w) req"
  by (auto simp: create_completion_def)

lemma generateSubtasks_agents:
  "map sub_agentId (fst (generateSubtasks env w d members)) = map (\<lambda>m. member_agent_id (fst m)) members"
  by (auto simp: generateSubtasks_def generic_subtasks_def Let_def create_completion_def
                 profile_of_def comp_def
           split: sum.splits list.splits option.splits dest!: assign_subtasks_agents)

lemma generateSubtasks_world:
  "\<exists>l. snd (generateSubtasks env w d members) = w\<lparr>llm_log := l\<rparr>"
  by (auto simp: generateSubtasks_def Let_def create_completion_def
           split: sum.splits list.splits option.splits)

lemma insert_assignments_rows:
  "insert_assignments env taskId i subs w = (Inr u, w') \<Longrightarrow>
   \<exists>new. w' = w\<lparr>assignments := assignments w @ new\<rparr> \<and>
         map asg_agent_id new = map sub_agentId subs \<and>
         map asg_task_id new = replicate (length subs) taskId \<and>
         map execution_order new = [Suc i..<Suc i + length subs]"
proof (induction subs arbitrary: i w)
  case Nil
  then show ?case by simp
next
  case (Cons s subs)
  let ?row = "\<lparr>asg_id = uuid env (CT_InsertAssignment i),
                 asg_task_id = taskId,
                 asg_agent_id = sub_agentId s,
                 subtask_description = sub_description s,
                 asg_status = PENDING,
                 asg_result = None,
                 started_at = None,
                 asg_completed_at = None,
                 execution_order = i + 1\<rparr>"
  from Cons.prems have ok: "\<not> fails env (CT_InsertAssignment i)"
    and rest: "insert_assignments env taskId (Suc i) subs (w\<lparr>assignments := assignments w @ [?row]\<rparr>) = (Inr u, w')"
    by (auto split: if_splits)
  from Cons.IH[OF rest] obtain new where new:
    "w' = w\<lparr>assignments := assignments w @ [?row]\<rparr>\<lparr>assignments := assignments (w\<lparr>assignments := assignments w @ [?row]\<rparr>) @ new\<rparr>"
    "map asg_agent_id new = map sub_agentId subs"
    "map asg_task_id new = replicate (length subs) taskId"
    "map execution_order new = [Suc (Suc i)..<Suc (Suc i) + length subs]"
    by blast
  show ?case
  proof (intro exI[of _ "?row # new"] conjI)
    show "w' = w\<lparr>assignments := assignments w @ ?row # new\<rparr>" using new(1) by simp
    show "map asg_agent_id (?row # new) = map sub_agentId (s # subs)" using new(2) by simp
    show "map asg_task_id (?row # new) = replicate (length (s # subs)) taskId" using new(3) by simp
    show "map execution_order (?row # new) = [Suc i..<Suc i + length (s # subs)]"
    proof -
      have "[Suc i..<Suc i + length (s # subs)] =
            Suc i # [Suc (Suc i)..<Suc (Suc i) + length subs]"
        by (simp add: upt_conv_Cons del: upt_Suc)
      with new(4) show ?thesis by (simp del: upt_Suc)
    qed
  qed
qed

text \<open>
  C5. A call of \<^verbatim>\<open>createCollaborativeTask\<close> that returns has appended exactly one
  row to \<^verbatim>\<open>task_assignments\<close> per member row of the team: the new rows belong to the
  new task, name the members' agents in the order the members were read, and are
  numbered from 1. This holds whatever the provider and the parser do, so also when the
  decomposition omits an agent and when the decomposition call fails.
\<close>

theorem one_assignment_per_member:
  assumes "createCollaborativeTask env w teamId userId data = (Inr v, w')"
  shows "\<exists>new. assignments w' = assignments w @ new \<and>
           length new = length (filter (\<lambda>m. member_team_id m = teamId) (team_members w)) \<and>
           map asg_agent_id new = map (\<lambda>m. member_agent_id (fst m)) (select_members w teamId) \<and>
           map asg_task_id new = replicate (length new) (uuid env CT_InsertTask) \<and>
           map execution_order new = [1..<Suc (length new)]"
proof -
  define row :: task_row where "row =
     \<lparr>task_id = uuid env CT_InsertTask,
                        task_team_id = teamId,
                        task_user_id = userId,
                        task_title = d_title data,
                        task_description = d_description data,
                        task_status = PENDING,
                        task_priority = or_else (d_priority data) ''MEDIUM'',
                        task_result = None,
                        version_number = (case d_parentTaskId data of
               None \<Rightarrow> 1
             | Some p \<Rightarrow>
                 if p = [] \<or> fails env CT_SelectParent then 1
                 else
                   (case single (filter (\<lambda>t. task_id t = p) (tasks w)) of
                      None \<Rightarrow> 1
                    | Some parentTask \<Rightarrow> version_number parentTask + 1)),
                        parent_task_id =
                          (case d_parentTaskId data of
                             None \<Rightarrow> None
                           | Some p \<Rightarrow> if p = [] then None else Some p),
                        feedback = None,
                        task_created_at = clock env CT_InsertTask,
                        task_completed_at = None\<rparr>"
  define w1 where "w1 = w\<lparr>tasks := tasks w @ [row]\<rparr>"
  define members where "members = select_members w1 teamId"
  define gen where "gen = generateSubtasks env w1 (d_description data) members"
  have members_eq: "members = select_members w teamId"
    by (simp add: members_def select_members_def w1_def)
  from assms have ins: "insert_assignments env (uuid env CT_InsertTask) 0 (fst gen) (snd gen) = (Inr (), w')"
    unfolding createCollaborativeTask_def Let_def gen_def members_def w1_def row_def
    by (auto split: if_splits prod.splits sum.splits)
  from insert_assignments_rows[OF ins] obtain new where new:
    "w' = (snd gen)\<lparr>assignments := assignments (snd gen) @ new\<rparr>"
    "map asg_agent_id new = map sub_agentId (fst gen)"
    "map asg_task_id new = replicate (length (fst gen)) (uuid env CT_InsertTask)"
    "map execution_order new = [Suc 0..<Suc 0 + length (fst gen)]"
    by blast
  from generateSubtasks_world[of env w1 "d_description data" members]
  obtain l where l: "snd gen = w1\<lparr>llm_log := l\<rparr>" unfolding gen_def by blast
  have agents: "map sub_agentId (fst gen) = map (\<lambda>m. member_agent_id (fst m)) members"
    unfolding gen_def by (rule generateSubtasks_agents)
  have len_gen: "length (fst gen) = length members"
    using agents by (metis length_map)
  have len_new: "length new = length (fst gen)"
    using new(2) by (metis length_map)
  have len_members: "length members = length (filter (\<lambda>m. member_team_id m = teamId) (team_members w))"
    by (simp add: members_eq select_members_def)
  show ?thesis
  proof (intro exI[of _ new] conjI)
    show "assignments w' = assignments w @ new" using new(1) l by (simp add: w1_def)
    show "length new = length (filter (\<lambda>m. member_team_id m = teamId) (team_members w))"
      using len_new len_gen len_members by simp
    show "map asg_agent_id new = map (\<lambda>m. member_agent_id (fst m)) (select_members w teamId)"
      using new(2) agents members_eq by simp
    show "map asg_task_id new = replicate (length new) (uuid env CT_InsertTask)"
      using new(3) len_new by simp
    show "map execution_order new = [1..<Suc (length new)]"
      using new(4) len_new by simp
  qed
qed

theorem one_assignment_per_member_witness:
  "\<not> isl (fst (createCollaborativeTask omitting_env demo_world ''team1'' ''alice'' demo_data)) \<and>
   map asg_agent_id
     (assignments (snd (createCollaborativeTask omitting_env demo_world ''team1'' ''alice'' demo_data))) =
     [''a1'', ''a2'', ''a1'', ''a2''] \<and>
   map subtask_description
     (drop 2 (assignments
        (snd (createCollaborativeTask omitting_env demo_world ''team1'' ''alice'' demo_data)))) =
     [Some ''Provide analysis and insights from the perspective of Lead.'',
      Some ''Check the numbers''] \<and>
   \<not> isl (fst (createCollaborativeTask no_model_env demo_world ''team1'' ''alice'' demo_data)) \<and>
   map subtask_description
     (drop 2 (assignments
        (snd (createCollaborativeTask no_model_env demo_world ''team1'' ''alice'' demo_data)))) =
     [Some ''Analyze the task from the perspective of Lead.'',
      Some ''Analyze the task from the perspective of Analyst.'']"
proof -
  let ?X = "createCollaborativeTask omitting_env demo_world ''team1'' ''alice'' demo_data"
  let ?Y = "createCollaborativeTask no_model_env demo_world ''team1'' ''alice'' demo_data"
  have ok: "\<not> isl (fst ?X)"
    by (simp add: omitting_env_def demo_data_def demo_defs create_defs Let_def)
  then obtain v where run: "?X = (Inr v, snd ?X)"
    by (cases ?X; cases "fst ?X") auto
  from one_assignment_per_member[OF run] obtain new where
    new: "assignments (snd ?X) = assignments demo_world @ new"
      "map asg_agent_id new = map (\<lambda>m. member_agent_id (fst m)) (select_members demo_world ''team1'')"
    by blast
  have "map (\<lambda>m. member_agent_id (fst m)) (select_members demo_world ''team1'') = [''a1'', ''a2'']"
    by (simp add: demo_world_def select_members_def)
  with new have ids: "map asg_agent_id (assignments (snd ?X)) = [''a1'', ''a2'', ''a1'', ''a2'']"
    by (simp add: demo_world_def)
  have descr: "map subtask_description (drop 2 (assignments (snd ?X))) =
     [Some ''Provide analysis and insights from the perspective of Lead.'',
      Some ''Check the numbers'']"
    by (simp add: omitting_env_def demo_data_def demo_defs create_defs Let_def profile_of_def)
  have ok2: "\<not> isl (fst ?Y)"
    by (simp add: no_model_env_def model_not_found_def demo_data_def demo_defs create_defs Let_def toLowerCase_def lower_char_def)
  have descr2: "map subtask_description (drop 2 (assignments (snd ?Y))) =
     [Some ''Analyze the task from the perspective of Lead.'',
      Some ''Analyze the task from the perspective of Analyst.'']"
    by (simp add: no_model_env_def model_not_found_def demo_data_def demo_defs create_defs Let_def toLowerCase_def lower_char_def)
  show ?thesis
    by (intro conjI) (rule ok, rule ids, rule descr, rule ok2, rule descr2)
qed

section \<open>Version numbers\<close>

text \<open>
  C6 asks for version numbers that grow with every new version of a family. In the code
  \<^verbatim>\<open>createTaskVersion\<close> always passes the root of the family as parent, and
  \<^verbatim>\<open>createCollaborativeTask\<close> numbers the new task one above its parent: two
  versions created one after the other, the second from the first, both get number 2.
\<close>

theorem version_number_repeats:
  "\<not> isl (fst (createTaskVersion (demo_env ''task2'') demo_world ''task1'' ''alice'' no_updates)) \<and>
   \<not> isl (fst (createTaskVersion (demo_env ''task3'')
                  (snd (createTaskVersion (demo_env ''task2'') demo_world ''task1'' ''alice'' no_updates))
                  ''task2'' ''alice'' no_updates)) \<and>
   map task_id
     (tasks (snd (createTaskVersion (demo_env ''task3'')
                    (snd (createTaskVersion (demo_env ''task2'') demo_world ''task1'' ''alice'' no_updates))
                    ''task2'' ''alice'' no_updates))) = [''task1'', ''task2'', ''task3''] \<and>
   map parent_task_id
     (tasks (snd (createTaskVersion (demo_env ''task3'')
                    (snd (createTaskVersion (demo_env ''task2'') demo_world ''task1'' ''alice'' no_updates))
                    ''task2'' ''alice'' no_updates))) = [None, Some ''task1'', Some ''task1''] \<and>
   map version_number
     (tasks (snd (createTaskVersion (demo_env ''task3'')
                    (snd (createTaskVersion (demo_env ''task2'') demo_world ''task1'' ''alice'' no_updates))
                    ''task2'' ''alice'' no_updates))) = [1, 2, 2]"
  by (simp add: createTaskVersion_def no_updates_def demo_defs create_defs Let_def)

section \<open>Runs of the execution on the small team\<close>

text \<open>
  C1 asks that the confidence stored with a contribution be the score computed from the
  log-probabilities of the agent's reply. \<^verbatim>\<open>executeAgentSubtask\<close> computes and returns
  that score (here 100, for a reply whose token has probability 1), but the insert into
  \<^verbatim>\<open>agent_contributions\<close> writes the constant 0.85.
\<close>

theorem persisted_confidence_is_constant:
  "out_confidence
     (fst (executeAgentSubtask (demo_env ''task2'') demo_world
             (row_as_arg (hd (select_assignments demo_world ''task1''))) ''Write a plan'' [] [] [])) =
     Some 100 \<and>
   map contribution
     (contributions (executeCollaborativeTask (demo_env ''task2'') demo_world ''task1'' ''alice'')) =
     [''done'', ''done''] \<and>
   map confidence
     (contributions (executeCollaborativeTask (demo_env ''task2'') demo_world ''task1'' ''alice'')) =
     [0.85, 0.85]"
  by (simp add: exec_defs demo_defs create_defs Let_def computeConfidenceFromLogprobs_def
        trim_def is_space_def)

text \<open>
  C3 asks that no run leave the task in \<^verbatim>\<open>IN_PROGRESS\<close>. Carol has access to Alice's
  task (\<^verbatim>\<open>getTaskById\<close> returns it to her), but the query of
  \<^verbatim>\<open>executeCollaborativeTask\<close> matches the owner only: the status is already updated when
  the function reports that the task was not found and returns, without a reset.
\<close>

theorem task_left_in_progress:
  "\<not> isl (getTaskById (demo_env ''task2'') demo_world ''task1'' ''carol'') \<and>
   map task_status (tasks demo_world) = [PENDING] \<and>
   map task_status
     (tasks (executeCollaborativeTask (demo_env ''task2'') demo_world ''task1'' ''carol'')) =
     [IN_PROGRESS] \<and>
   events (executeCollaborativeTask (demo_env ''task2'') demo_world ''task1'' ''carol'') =
     [EvStatus ''Starting collaborative task execution...'', EvError ''Task not found'', StreamEnd]"
  by (simp add: exec_defs demo_defs create_defs Let_def)

section \<open>Retries around the LLM provider\<close>











section \<open>The loop over the assignments\<close>















section \<open>A run without database errors\<close>










section \<open>Failed provider calls and the rollback\<close>







end
